theory Spec2Isabelle
  imports Main
begin

section \<open>csharpierd: the daemon lifecycle manager of \<open>src/index.ts\<close>\<close>

text \<open>
  The program is a command line tool that starts, reuses, health-checks and reaps one
  background formatting server. Everything it does is an effect on its surroundings: two
  files under \<open>/tmp\<close>, the process table, HTTP requests to localhost and the clock.
  The embedding passes these surroundings along explicitly as a record \<open>world\<close>; each
  source function becomes a function from a world to its result and the world it leaves.

  What the surroundings do is fixed as follows, and nothing else is assumed.
  \<^item> \<open>Date.now()\<close> reads \<open>clock\<close>. \<open>Bun.sleep(n)\<close> advances it by \<open>n\<close>
    milliseconds; every other operation takes no time.
  \<^item> Reading, writing and removing the two files always succeeds; a file that is written
    gets the current clock as its modification time. The state file may hold text that
    is not a server descriptor (\<open>Corrupt\<close>).
  \<^item> A process identifier is either not addressable by the caller (\<open>Gone\<close>), or names a
    process that exits on SIGTERM (\<open>Normal\<close>), one that survives SIGTERM and exits
    on SIGKILL (\<open>IgnoresTerm\<close>), or one that survives both (\<open>Unkillable\<close>, such as a
    zombie or a process in uninterruptible sleep). The shell command \<open>kill\<close> fails on
    a \<open>Gone\<close> identifier and succeeds otherwise.
  \<^item> What a GET of the root path answers depends on the port and on the time of the
    request; what a POST to \<open>/format\<close> answers depends on the port, the file path and
    the file contents. Neither depends on the process table: a port may be served by a
    process other than the one the descriptor names.
  \<^item> \<open>Bun.spawn\<close> succeeds and yields the identifier \<open>child_pid\<close>.
  \<^item> \<open>console.error\<close> output is not modelled.
\<close>

subsection \<open>Constants (lines 5-8)\<close>

definition SERVER_PORT :: int where
  "SERVER_PORT = 18912"

definition IDLE_TIMEOUT_MS :: int where
  "IDLE_TIMEOUT_MS = 60 * 60 * 1000"

subsection \<open>Data\<close>

text \<open>\<open>interface ServerState\<close> (lines 22-26).\<close>

record ServerState =
  pid :: int
  port :: int
  lastAccess :: int

text \<open>\<open>interface FormatResult\<close> (lines 190-194).\<close>

datatype format_status = Formatted | Ignored | Failed | UnsupportedFile

record FormatResult =
  formattedFile :: "string option"
  errorMessage :: "string option"
  status :: format_status

text \<open>
  The outcome of \<open>fetch\<close>: the promise rejects (\<open>NetworkError\<close>, or \<open>TimedOut\<close>
  when the abort signal fires first), or it resolves to a response with a status code, the
  body as \<open>response.text()\<close> gives it, and the body as \<open>response.json()\<close> gives it
  (\<open>None\<close> when the body is not JSON, where \<open>response.json()\<close> throws).
\<close>

datatype http_reply =
  NetworkError
| TimedOut
| Response nat string "FormatResult option"

text \<open>
  The values a JavaScript \<open>throw\<close> of this program carries: \<open>new Error(message)\<close>,
  the rejection of \<open>fetch\<close>, and the syntax error of \<open>response.json()\<close>.
\<close>

datatype error =
  Error string
| FetchFailed
| JsonSyntaxError

datatype proc = Gone | Normal | IgnoresTerm | Unkillable

text \<open>The content of the state file: what \<open>file.json()\<close> yields, or text that fails to parse.\<close>

datatype state_content = Valid ServerState | Corrupt

text \<open>The lock marker: the process identifier written into it, and its modification time.\<close>

record lock_marker =
  holder :: int
  mtime :: int

record world =
  clock :: int
  self_pid :: int
  cwd :: string
  path_join :: "string \<Rightarrow> string \<Rightarrow> string"
  lock_file :: "lock_marker option"
  state_file :: "state_content option"
  procs :: "int \<Rightarrow> proc"
  child_pid :: int
  http_get :: "int \<Rightarrow> int \<Rightarrow> http_reply"
  http_post :: "int \<Rightarrow> string \<Rightarrow> string \<Rightarrow> http_reply"

subsection \<open>Primitive operations of the runtime\<close>

definition sleep :: "int \<Rightarrow> world \<Rightarrow> world" where
  "sleep ms w = w\<lparr>clock := clock w + ms\<rparr>"

text \<open>The shell commands \<open>kill\<close> and \<open>kill -9\<close>: \<open>None\<close> when the command exits non-zero.\<close>

definition sh_kill :: "int \<Rightarrow> world \<Rightarrow> world option" where
  "sh_kill p w =
     (case procs w p of
        Gone \<Rightarrow> None
      | Normal \<Rightarrow> Some (w\<lparr>procs := (procs w)(p := Gone)\<rparr>)
      | IgnoresTerm \<Rightarrow> Some w
      | Unkillable \<Rightarrow> Some w)"

definition sh_kill9 :: "int \<Rightarrow> world \<Rightarrow> world option" where
  "sh_kill9 p w =
     (case procs w p of
        Gone \<Rightarrow> None
      | Normal \<Rightarrow> Some (w\<lparr>procs := (procs w)(p := Gone)\<rparr>)
      | IgnoresTerm \<Rightarrow> Some (w\<lparr>procs := (procs w)(p := Gone)\<rparr>)
      | Unkillable \<Rightarrow> Some w)"

text \<open>\<open>response.ok\<close>: the status is in the range 200-299.\<close>

definition response_ok :: "nat \<Rightarrow> bool" where
  "response_ok s = (200 \<le> s \<and> s \<le> 299)"

text \<open>JavaScript's truthiness of an optional string: \<open>undefined\<close> and \<open>""\<close> are falsy.\<close>

definition truthy :: "string option \<Rightarrow> bool" where
  "truthy v = (case v of None \<Rightarrow> False | Some s \<Rightarrow> s \<noteq> [])"

text \<open>The decimal numeral a template literal prints for a status code.\<close>

definition digit_char :: "nat \<Rightarrow> char" where
  "digit_char d = ''0123456789'' ! d"

function string_of_nat :: "nat \<Rightarrow> string" where
  "string_of_nat n =
     (if n < 10 then [digit_char n] else string_of_nat (n div 10) @ [digit_char (n mod 10)])"
  by pat_completeness auto
termination
  by (relation "measure id") auto

declare string_of_nat.simps [simp del]

text \<open>\<open>path.isAbsolute\<close> on POSIX: the path starts with a slash.\<close>

definition isAbsolute :: "string \<Rightarrow> bool" where
  "isAbsolute s = (case s of [] \<Rightarrow> False | c # _ \<Rightarrow> c = CHR ''/'')"

subsection \<open>LockManager (lines 28-50)\<close>

text \<open>
  \<open>acquireLock\<close>: the marker exists or not; an existing marker is stale when it is more
  than 10000 ms old, and is then removed before the new one is written. The \<open>catch\<close>
  of lines 43-45 answers a fault of a file operation, which does not occur here.
\<close>

definition acquireLock :: "world \<Rightarrow> bool \<times> world" where
  "acquireLock w =
     (case lock_file w of
        None \<Rightarrow>
          (True, w\<lparr>lock_file := Some \<lparr>holder = self_pid w, mtime = clock w\<rparr>\<rparr>)
      | Some m \<Rightarrow>
          if clock w - mtime m > 10000
          then (let w1 = w\<lparr>lock_file := None\<rparr>
                in (True, w1\<lparr>lock_file := Some \<lparr>holder = self_pid w1, mtime = clock w1\<rparr>\<rparr>))
          else (False, w))"

definition releaseLock :: "world \<Rightarrow> world" where
  "releaseLock w = w\<lparr>lock_file := None\<rparr>"

subsection \<open>StateStore (lines 52-66)\<close>

text \<open>
  \<open>loadState\<close> answers \<open>null\<close> when the file is missing and, through its \<open>catch\<close>,
  when the content does not parse.
\<close>

definition loadState :: "world \<Rightarrow> ServerState option" where
  "loadState w =
     (case state_file w of
        None \<Rightarrow> None
      | Some Corrupt \<Rightarrow> None
      | Some (Valid st) \<Rightarrow> Some st)"

definition saveState :: "ServerState \<Rightarrow> world \<Rightarrow> world" where
  "saveState st w = w\<lparr>state_file := Some (Valid st)\<rparr>"

subsection \<open>HealthChecker (lines 68-88)\<close>

text \<open>
  \<open>isProcessRunning\<close> is \<open>kill -0\<close>: false when the command exits non-zero or throws.
  \<open>isServerResponsive\<close> is \<open>response.ok || response.status === 404\<close>, and false when
  \<open>fetch\<close> rejects.
\<close>

definition isProcessRunning :: "world \<Rightarrow> int \<Rightarrow> bool" where
  "isProcessRunning w p = (case procs w p of Gone \<Rightarrow> False | _ \<Rightarrow> True)"

definition isServerResponsive :: "world \<Rightarrow> int \<Rightarrow> bool" where
  "isServerResponsive w prt =
     (case http_get w prt (clock w) of
        Response s _ _ \<Rightarrow> response_ok s \<or> s = 404
      | _ \<Rightarrow> False)"

subsection \<open>ProcessSupervisor (lines 90-130)\<close>

text \<open>
  \<open>killServer\<close>: a failing \<open>kill\<close> throws into the empty \<open>catch\<close>, so nothing more
  happens; otherwise 500 ms pass and a process that still runs is sent SIGKILL.
\<close>

definition killServer :: "int \<Rightarrow> world \<Rightarrow> world" where
  "killServer p w =
     (case sh_kill p w of
        None \<Rightarrow> w
      | Some w1 \<Rightarrow>
          (let w2 = sleep 500 w1
           in if isProcessRunning w2 p
              then (case sh_kill9 p w2 of None \<Rightarrow> w2 | Some w3 \<Rightarrow> w3)
              else w2))"

definition spawn :: "world \<Rightarrow> int \<times> world" where
  "spawn w = (child_pid w, w\<lparr>procs := (procs w)(child_pid w := Normal)\<rparr>)"

text \<open>
  The readiness loop of \<open>startServer\<close> (lines 121-127), by the number of attempts that
  remain: sleep 200 ms, probe the fixed port, stop at the first probe that succeeds.
\<close>

fun wait_ready :: "nat \<Rightarrow> world \<Rightarrow> bool \<times> world" where
  "wait_ready 0 w = (False, w)"
| "wait_ready (Suc n) w =
     (let w1 = sleep 200 w
      in if isServerResponsive w1 SERVER_PORT then (True, w1) else wait_ready n w1)"

definition startServer :: "world \<Rightarrow> (error + int) \<times> world" where
  "startServer w =
     (let (p, w1) = spawn w;
          (ready, w2) = wait_ready 50 w1
      in if ready then (Inr p, w2)
         else (Inl (Error ''Server failed to start within timeout''), w2))"

subsection \<open>Orchestrator (lines 132-188)\<close>

definition cleanupIdleServer :: "ServerState \<Rightarrow> world \<Rightarrow> world" where
  "cleanupIdleServer st w =
     (let idleTime = clock w - lastAccess st
      in if idleTime > IDLE_TIMEOUT_MS
         then (let w1 = killServer (pid st) w in w1\<lparr>state_file := None\<rparr>)
         else w)"

text \<open>
  The lock loop of \<open>ensureServer\<close> (lines 147-150), by the number of attempts that remain:
  stop at the first acquisition, sleep 100 ms after each failure, go on after the last.
\<close>

fun lock_retries :: "nat \<Rightarrow> world \<Rightarrow> world" where
  "lock_retries 0 w = w"
| "lock_retries (Suc n) w =
     (case acquireLock w of
        (True, w1) \<Rightarrow> w1
      | (False, w1) \<Rightarrow> lock_retries n (sleep 100 w1))"

text \<open>Lines 176-184: start a new server and persist its descriptor.\<close>

definition start_fresh :: "world \<Rightarrow> (error + ServerState) \<times> world" where
  "start_fresh w =
     (case startServer w of
        (Inl e, w1) \<Rightarrow> (Inl e, w1)
      | (Inr p, w1) \<Rightarrow>
          (let st = \<lparr>pid = p, port = SERVER_PORT, lastAccess = clock w1\<rparr>
           in (Inr st, saveState st w1)))"

text \<open>
  Lines 153-174: load the descriptor, reap it when idle, and decide whether the server it
  names can be reused. \<open>Some st\<close> is the \<open>return state\<close> of line 165; \<open>None\<close>
  means that control falls through to line 176.
\<close>

definition reuse_phase :: "world \<Rightarrow> ServerState option \<times> world" where
  "reuse_phase w =
     (case loadState w of
        None \<Rightarrow> (None, w)
      | Some st \<Rightarrow>
          (let w1 = cleanupIdleServer st w
           in if isProcessRunning w1 (pid st) \<and> isServerResponsive w1 (port st)
              then (Some st, w1)
              else (None, if isProcessRunning w1 (pid st)
                          then killServer (pid st) w1 else w1)))"

text \<open>The body of the \<open>try\<close> block (lines 153-184).\<close>

definition ensureServer_body :: "world \<Rightarrow> (error + ServerState) \<times> world" where
  "ensureServer_body w =
     (case reuse_phase w of
        (Some st, w1) \<Rightarrow> (Inr st, w1)
      | (None, w1) \<Rightarrow> start_fresh w1)"

text \<open>\<open>try { ... } finally { await releaseLock(); }\<close>: the lock is released on every outcome.\<close>

definition ensureServer :: "world \<Rightarrow> (error + ServerState) \<times> world" where
  "ensureServer w =
     (let w1 = lock_retries 5 w;
          (r, w2) = ensureServer_body w1
      in (r, releaseLock w2))"

subsection \<open>RequestProxy (lines 196-239)\<close>

text \<open>Lines 202-204: the path sent to the backend. \<open>path.join\<close> is the platform's.\<close>

definition resolvePath :: "world \<Rightarrow> string \<Rightarrow> string" where
  "resolvePath w fileName =
     (if isAbsolute fileName then fileName else path_join w (cwd w) fileName)"

definition formatCode :: "string \<Rightarrow> string \<Rightarrow> world \<Rightarrow> (error + string) \<times> world" where
  "formatCode fileName fileContents w =
     (case ensureServer w of
        (Inl e, w1) \<Rightarrow> (Inl e, w1)
      | (Inr st, w1) \<Rightarrow>
          (let filePath = resolvePath w1 fileName
           in case http_post w1 (port st) filePath fileContents of
                NetworkError \<Rightarrow> (Inl FetchFailed, w1)
              | TimedOut \<Rightarrow> (Inl FetchFailed, w1)
              | Response s txt js \<Rightarrow>
                  if \<not> response_ok s
                  then (Inl (Error (''Server returned '' @ string_of_nat s @ '': '' @ txt)), w1)
                  else (case js of
                          None \<Rightarrow> (Inl JsonSyntaxError, w1)
                        | Some result \<Rightarrow>
                            (let st1 = st\<lparr>lastAccess := clock w1\<rparr>;
                                 w2 = saveState st1 w1
                             in if \<not> truthy (formattedFile result)
                                then (Inl (Error (case errorMessage result of
                                                    None \<Rightarrow> [] | Some m \<Rightarrow> m)), w2)
                                else (case formattedFile result of
                                        None \<Rightarrow> (Inl (Error []), w2)
                                      | Some f \<Rightarrow> (Inr f, w2))))))"

subsection \<open>Sample surroundings\<close>

text \<open>
  Concrete worlds on which the theorems below are exercised. In each of them the calling
  process has identifier 4242, \<open>Bun.spawn\<close> will yield 5000, and the clock starts at
  1700000000000. Only the JSON view of a response body is filled in.
\<close>

definition echo_backend :: "int \<Rightarrow> string \<Rightarrow> string \<Rightarrow> http_reply" where
  "echo_backend prt path contents =
     Response 200 []
       (Some \<lparr>formattedFile = Some contents, errorMessage = None, status = Formatted\<rparr>)"

text \<open>No descriptor, no lock; the spawned server answers from 600 ms on.\<close>

definition fresh_world :: world where
  "fresh_world =
     \<lparr>clock = 1700000000000, self_pid = 4242, cwd = ''/home/dev'',
      path_join = (\<lambda>d f. d @ ''/'' @ f),
      lock_file = None, state_file = None, procs = (\<lambda>p. Gone), child_pid = 5000,
      http_get = (\<lambda>prt t. if prt = 18912 \<and> 1700000000600 \<le> t
                          then Response 404 [] None else NetworkError),
      http_post = echo_backend\<rparr>"

text \<open>A descriptor used one minute ago, whose process runs and whose port answers.\<close>

definition healthy_world :: world where
  "healthy_world =
     fresh_world
       \<lparr>state_file := Some (Valid \<lparr>pid = 4100, port = 18912, lastAccess = 1699999940000\<rparr>),
        procs := (\<lambda>p. if p = 4100 then Normal else Gone),
        http_get := (\<lambda>prt t. if prt = 18912 then Response 404 [] None else NetworkError)\<rparr>"


text \<open>The same idle descriptor, naming a process that survives both signals.\<close>

definition zombie_world :: world where
  "zombie_world =
     healthy_world
       \<lparr>state_file := Some (Valid \<lparr>pid = 4100, port = 18912, lastAccess = 1699996399999\<rparr>),
        procs := (\<lambda>p. if p = 4100 then Unkillable else Gone)\<rparr>"

text \<open>No descriptor, and nothing ever answers on any port.\<close>

definition dead_world :: world where
  "dead_world = fresh_world\<lparr>http_get := (\<lambda>prt t. NetworkError)\<rparr>"

text \<open>A lock marker of process 777, 10001 ms old, and one exactly 10000 ms old.\<close>

definition stale_lock_world :: world where
  "stale_lock_world = fresh_world\<lparr>lock_file := Some \<lparr>holder = 777, mtime = 1699999989999\<rparr>\<rparr>"

definition held_lock_world :: world where
  "held_lock_world = fresh_world\<lparr>lock_file := Some \<lparr>holder = 777, mtime = 1699999990000\<rparr>\<rparr>"

text \<open>The healthy server, with a lock marker that process 777 has just written.\<close>

definition contended_world :: world where
  "contended_world = healthy_world\<lparr>lock_file := Some \<lparr>holder = 777, mtime = 1700000000000\<rparr>\<rparr>"

text \<open>A healthy server whose root path answers 500.\<close>

definition error_page_world :: world where
  "error_page_world = healthy_world\<lparr>http_get := (\<lambda>prt t. Response 500 [] None)\<rparr>"

text \<open>A healthy server whose formatter reports a parse error, and one that answers 500.\<close>

definition parse_error_world :: world where
  "parse_error_world =
     healthy_world
       \<lparr>http_post := (\<lambda>prt path contents. Response 200 []
          (Some \<lparr>formattedFile = None, errorMessage = Some ''parse error'', status = Failed\<rparr>))\<rparr>"

definition server_error_world :: world where
  "server_error_world =
     healthy_world\<lparr>http_post := (\<lambda>prt path contents. Response 500 ''Internal Server Error'' None)\<rparr>"

text \<open>A healthy server whose formatter answers every input with an empty file.\<close>

definition blank_output_world :: world where
  "blank_output_world =
     healthy_world
       \<lparr>http_post := (\<lambda>prt path contents. Response 200 []
          (Some \<lparr>formattedFile = Some [], errorMessage = None, status = Formatted\<rparr>))\<rparr>"

section \<open>Properties\<close>

subsection \<open>What each operation leaves untouched\<close>

lemma acquireLock_frame:
  "snd (acquireLock w) = w\<lparr>lock_file := lock_file (snd (acquireLock w))\<rparr>"
  by (simp add: acquireLock_def split: option.splits)

lemma acquireLock_shape:
  "\<exists>l. snd (acquireLock w) = w\<lparr>lock_file := l\<rparr>"
  using acquireLock_frame [of w] by blast

lemma lock_retries_shape:
  "\<exists>c l. lock_retries n w = w\<lparr>clock := c, lock_file := l\<rparr>"
proof (induction n arbitrary: w)
  case 0
  have "lock_retries 0 w = w\<lparr>clock := clock w, lock_file := lock_file w\<rparr>" by simp
  then show ?case by blast
next
  case (Suc n)
  obtain b w1 where a: "acquireLock w = (b, w1)" by (cases "acquireLock w")
  obtain l where l: "w1 = w\<lparr>lock_file := l\<rparr>"
    using acquireLock_shape [of w] a by auto
  show ?case
  proof (cases b)
    case True
    with a l have "lock_retries (Suc n) w = w\<lparr>clock := clock w, lock_file := l\<rparr>" by simp
    then show ?thesis by blast
  next
    case False
    obtain c l' where "lock_retries n (sleep 100 w1) = (sleep 100 w1)\<lparr>clock := c, lock_file := l'\<rparr>"
      using Suc.IH by blast
    with a l False have "lock_retries (Suc n) w = w\<lparr>clock := c, lock_file := l'\<rparr>"
      by (simp add: sleep_def)
    then show ?thesis by blast
  qed
qed

lemma killServer_cases:
  "killServer p w =
     (case procs w p of
        Gone \<Rightarrow> w
      | Normal \<Rightarrow> w\<lparr>clock := clock w + 500, procs := (procs w)(p := Gone)\<rparr>
      | IgnoresTerm \<Rightarrow> w\<lparr>clock := clock w + 500, procs := (procs w)(p := Gone)\<rparr>
      | Unkillable \<Rightarrow> w\<lparr>clock := clock w + 500\<rparr>)"
  by (cases "procs w p")
     (simp_all add: killServer_def sh_kill_def sh_kill9_def sleep_def isProcessRunning_def)


lemma wait_ready_timeout:
  "(\<And>j. 1 \<le> j \<Longrightarrow> j \<le> n \<Longrightarrow> \<not> isServerResponsive (w\<lparr>clock := clock w + 200 * int j\<rparr>) SERVER_PORT)
   \<Longrightarrow> wait_ready n w = (False, w\<lparr>clock := clock w + 200 * int n\<rparr>)"
proof (induction n arbitrary: w)
  case 0
  then show ?case by simp
next
  case (Suc n)
  let ?w1 = "sleep 200 w"
  have first: "\<not> isServerResponsive ?w1 SERVER_PORT"
    using Suc.prems [of 1] by (simp add: sleep_def)
  have rest: "\<not> isServerResponsive (?w1\<lparr>clock := clock ?w1 + 200 * int j\<rparr>) SERVER_PORT"
    if "1 \<le> j" "j \<le> n" for j
  proof -
    have "?w1\<lparr>clock := clock ?w1 + 200 * int j\<rparr> = w\<lparr>clock := clock w + 200 * int (Suc j)\<rparr>"
      by (simp add: sleep_def)
    then show ?thesis using Suc.prems [of "Suc j"] that by simp
  qed
  have "wait_ready n ?w1 = (False, ?w1\<lparr>clock := clock ?w1 + 200 * int n\<rparr>)"
    using Suc.IH [of ?w1] rest by blast
  with first show ?case by (simp add: sleep_def)
qed

lemma wait_ready_first:
  "1 \<le> k \<Longrightarrow> k \<le> n
   \<Longrightarrow> isServerResponsive (w\<lparr>clock := clock w + 200 * int k\<rparr>) SERVER_PORT
   \<Longrightarrow> (\<And>j. 1 \<le> j \<Longrightarrow> j < k \<Longrightarrow> \<not> isServerResponsive (w\<lparr>clock := clock w + 200 * int j\<rparr>) SERVER_PORT)
   \<Longrightarrow> wait_ready n w = (True, w\<lparr>clock := clock w + 200 * int k\<rparr>)"
proof (induction n arbitrary: w k)
  case 0
  then show ?case by simp
next
  case (Suc n)
  let ?w1 = "sleep 200 w"
  show ?case
  proof (cases "k = 1")
    case True
    with Suc.prems(3) have "isServerResponsive ?w1 SERVER_PORT" by (simp add: sleep_def)
    with True show ?thesis by (simp add: sleep_def)
  next
    case False
    with Suc.prems(1) obtain k' where k': "k = Suc k'" "1 \<le> k'" by (cases k) auto
    have first: "\<not> isServerResponsive ?w1 SERVER_PORT"
      using Suc.prems(4) [of 1] k' by (simp add: sleep_def)
    have shift: "?w1\<lparr>clock := clock ?w1 + 200 * int j\<rparr> = w\<lparr>clock := clock w + 200 * int (Suc j)\<rparr>" for j
      by (simp add: sleep_def)
    have "wait_ready n ?w1 = (True, ?w1\<lparr>clock := clock ?w1 + 200 * int k'\<rparr>)"
    proof (rule Suc.IH)
      show "1 \<le> k'" by (rule k')
      show "k' \<le> n" using Suc.prems(2) k' by simp
      show "isServerResponsive (?w1\<lparr>clock := clock ?w1 + 200 * int k'\<rparr>) SERVER_PORT"
        using Suc.prems(3) k' shift [of k'] by simp
      show "\<not> isServerResponsive (?w1\<lparr>clock := clock ?w1 + 200 * int j\<rparr>) SERVER_PORT"
        if "1 \<le> j" "j < k'" for j
        using Suc.prems(4) [of "Suc j"] that k' shift [of j] by simp
    qed
    with first k' shift [of k'] show ?thesis by simp
  qed
qed


lemma wait_ready_numeral:
  "wait_ready (numeral k) w =
     (let w1 = sleep 200 w
      in if isServerResponsive w1 SERVER_PORT then (True, w1) else wait_ready (pred_numeral k) w1)"
  by (simp add: numeral_eq_Suc)

lemma lock_retries_numeral:
  "lock_retries (numeral k) w =
     (case acquireLock w of
        (True, w1) \<Rightarrow> w1
      | (False, w1) \<Rightarrow> lock_retries (pred_numeral k) (sleep 100 w1))"
  by (simp add: numeral_eq_Suc)

lemma lock_retries_free:
  "lock_file w = None \<Longrightarrow>
   lock_retries 5 w = w\<lparr>lock_file := Some \<lparr>holder = self_pid w, mtime = clock w\<rparr>\<rparr>"
  by (simp add: lock_retries_numeral acquireLock_def)

lemma isServerResponsive_frame [simp]:
  "isServerResponsive (w\<lparr>procs := f\<rparr>) prt = isServerResponsive w prt"
  "isServerResponsive (w\<lparr>lock_file := l\<rparr>) prt = isServerResponsive w prt"
  "isServerResponsive (w\<lparr>state_file := s\<rparr>) prt = isServerResponsive w prt"
  by (simp_all add: isServerResponsive_def)

lemma isProcessRunning_frame [simp]:
  "isProcessRunning (w\<lparr>clock := c\<rparr>) p = isProcessRunning w p"
  "isProcessRunning (w\<lparr>lock_file := l\<rparr>) p = isProcessRunning w p"
  "isProcessRunning (w\<lparr>state_file := s\<rparr>) p = isProcessRunning w p"
  by (simp_all add: isProcessRunning_def)

lemma killServer_frame [simp]:
  "state_file (killServer p w) = state_file w"
  "child_pid (killServer p w) = child_pid w"
  "lock_file (killServer p w) = lock_file w"
  by (simp_all add: killServer_cases split: proc.splits)

subsection \<open>LockManager\<close>

text \<open>
  Claim C4. \<open>acquire()\<close>: with no lock marker it creates one holding the caller's
  process identifier and returns true; with a marker whose modification time is more than
  10 seconds old it deletes the marker, creates a fresh one and returns true; with a
  marker that is at most 10 seconds old it returns false and leaves the marker as it is.
\<close>

theorem acquireLock_semantics:
  "(lock_file w = None \<longrightarrow>
      acquireLock w = (True, w\<lparr>lock_file := Some \<lparr>holder = self_pid w, mtime = clock w\<rparr>\<rparr>))
   \<and> (lock_file w = Some m \<and> clock w - mtime m > 10000 \<longrightarrow>
      acquireLock w = (True, w\<lparr>lock_file := Some \<lparr>holder = self_pid w, mtime = clock w\<rparr>\<rparr>))
   \<and> (lock_file w = Some m \<and> clock w - mtime m \<le> 10000 \<longrightarrow>
      acquireLock w = (False, w))"
  by (simp add: acquireLock_def)

theorem acquireLock_semantics_witness:
  "lock_file fresh_world = None
   \<and> fst (acquireLock fresh_world) = True
   \<and> lock_file (snd (acquireLock fresh_world)) = Some \<lparr>holder = 4242, mtime = 1700000000000\<rparr>
   \<and> lock_file stale_lock_world = Some \<lparr>holder = 777, mtime = 1699999989999\<rparr>
   \<and> clock stale_lock_world - 1699999989999 > 10000
   \<and> fst (acquireLock stale_lock_world) = True
   \<and> lock_file (snd (acquireLock stale_lock_world)) = Some \<lparr>holder = 4242, mtime = 1700000000000\<rparr>
   \<and> lock_file held_lock_world = Some \<lparr>holder = 777, mtime = 1699999990000\<rparr>
   \<and> clock held_lock_world - 1699999990000 \<le> 10000
   \<and> acquireLock held_lock_world = (False, held_lock_world)"
  using acquireLock_semantics [of fresh_world]
    acquireLock_semantics [of stale_lock_world "\<lparr>holder = 777, mtime = 1699999989999\<rparr>"]
    acquireLock_semantics [of held_lock_world "\<lparr>holder = 777, mtime = 1699999990000\<rparr>"]
  by (simp add: fresh_world_def stale_lock_world_def held_lock_world_def)

subsection \<open>HealthChecker\<close>

text \<open>
  The probe accepts exactly the statuses 200 to 299 and 404; every other response, like a
  failed or timed-out request, makes it answer false.
\<close>

lemma isServerResponsive_iff:
  "isServerResponsive w prt =
     (\<exists>s txt js. http_get w prt (clock w) = Response s txt js
        \<and> ((200 \<le> s \<and> s \<le> 299) \<or> s = 404))"
  by (simp add: isServerResponsive_def response_ok_def split: http_reply.splits)

text \<open>
  Claim C2 says that \<open>isResponsive\<close> is true for any HTTP response whatever its status
  code. The code at a root path that answers 500: the request yields a response, and the
  probe is false.
\<close>

theorem isServerResponsive_rejects_500:
  "http_get error_page_world 18912 (clock error_page_world) = Response 500 [] None
   \<and> isServerResponsive error_page_world 18912 = False"
  by (simp add: error_page_world_def healthy_world_def fresh_world_def
      isServerResponsive_def response_ok_def)

subsection \<open>The lock is released on every exit path\<close>

lemma start_fresh_outcome:
  "fst (start_fresh w) = Inl (Error ''Server failed to start within timeout'')
   \<or> (\<exists>st. fst (start_fresh w) = Inr st)"
  by (simp add: start_fresh_def startServer_def Let_def split: prod.splits sum.splits)

lemma ensureServer_body_outcome:
  "fst (ensureServer_body w) = Inl (Error ''Server failed to start within timeout'')
   \<or> (\<exists>st. fst (ensureServer_body w) = Inr st)"
  using start_fresh_outcome
  by (auto simp add: ensureServer_body_def split: prod.splits option.splits)

text \<open>
  Claim C8. Every execution of \<open>ensureServer\<close> ends in one of two ways, a descriptor
  (reused or fresh) or the startup-timeout error; in each, \<open>release()\<close> is the last
  step before control leaves, and no lock marker is left.
\<close>

theorem ensureServer_always_releases:
  "snd (ensureServer w) = releaseLock (snd (ensureServer_body (lock_retries 5 w)))
   \<and> lock_file (snd (ensureServer w)) = None
   \<and> (fst (ensureServer w) = Inl (Error ''Server failed to start within timeout'')
      \<or> (\<exists>st. fst (ensureServer w) = Inr st))"
proof -
  have "snd (ensureServer w) = releaseLock (snd (ensureServer_body (lock_retries 5 w)))"
    by (simp add: ensureServer_def Let_def split: prod.splits)
  moreover have "lock_file (snd (ensureServer w)) = None"
    by (simp add: ensureServer_def releaseLock_def Let_def split: prod.splits)
  moreover have "fst (ensureServer w) = fst (ensureServer_body (lock_retries 5 w))"
    by (simp add: ensureServer_def Let_def split: prod.splits)
  ultimately show ?thesis
    using ensureServer_body_outcome [of "lock_retries 5 w"] by simp
qed

text \<open>
  The three exit paths on sample worlds: a reused descriptor, a fresh one, and the startup
  timeout. In the fourth world the lock is held by another invocation throughout the five
  attempts; \<open>ensureServer\<close> goes on without it after 500 ms and removes the marker on
  its way out all the same.
\<close>

lemma ensureServer_exit_paths:
  "fst (ensureServer healthy_world) = Inr \<lparr>pid = 4100, port = 18912, lastAccess = 1699999940000\<rparr>
   \<and> lock_file (snd (ensureServer healthy_world)) = None
   \<and> fst (ensureServer fresh_world) = Inr \<lparr>pid = 5000, port = 18912, lastAccess = 1700000000600\<rparr>
   \<and> lock_file (snd (ensureServer fresh_world)) = None
   \<and> fst (ensureServer dead_world) = Inl (Error ''Server failed to start within timeout'')
   \<and> lock_file (snd (ensureServer dead_world)) = None
   \<and> fst (ensureServer contended_world) = Inr \<lparr>pid = 4100, port = 18912, lastAccess = 1699999940000\<rparr>
   \<and> clock (snd (ensureServer contended_world)) = 1700000000500
   \<and> lock_file (snd (ensureServer contended_world)) = None"
  by code_simp

subsection \<open>ProcessSupervisor\<close>

lemma startServer_timeout:
  assumes "\<And>j. 1 \<le> j \<Longrightarrow> j \<le> 50 \<Longrightarrow>
      \<not> isServerResponsive (w\<lparr>clock := clock w + 200 * int j\<rparr>) SERVER_PORT"
  shows "startServer w =
     (Inl (Error ''Server failed to start within timeout''),
      w\<lparr>clock := clock w + 10000, procs := (procs w)(child_pid w := Normal)\<rparr>)"
proof -
  let ?w1 = "w\<lparr>procs := (procs w)(child_pid w := Normal)\<rparr>"
  have "wait_ready 50 ?w1 = (False, ?w1\<lparr>clock := clock ?w1 + 200 * int 50\<rparr>)"
    by (rule wait_ready_timeout) (use assms in \<open>simp add: isServerResponsive_def\<close>)
  then show ?thesis by (simp add: startServer_def spawn_def)
qed

lemma startServer_ready:
  assumes "1 \<le> k" and "k \<le> 50"
    and "isServerResponsive (w\<lparr>clock := clock w + 200 * int k\<rparr>) SERVER_PORT"
    and "\<And>j. 1 \<le> j \<Longrightarrow> j < k \<Longrightarrow>
      \<not> isServerResponsive (w\<lparr>clock := clock w + 200 * int j\<rparr>) SERVER_PORT"
  shows "startServer w =
     (Inr (child_pid w),
      w\<lparr>clock := clock w + 200 * int k, procs := (procs w)(child_pid w := Normal)\<rparr>)"
proof -
  let ?w1 = "w\<lparr>procs := (procs w)(child_pid w := Normal)\<rparr>"
  have "wait_ready 50 ?w1 = (True, ?w1\<lparr>clock := clock ?w1 + 200 * int k\<rparr>)"
    by (rule wait_ready_first) (use assms in \<open>simp_all add: isServerResponsive_def\<close>)
  then show ?thesis by (simp add: startServer_def spawn_def)
qed

lemma ensureServer_propagates:
  assumes "reuse_phase (lock_retries 5 w0) = (None, w)" and "fst (startServer w) = Inl e"
  shows "ensureServer w0 = (Inl e, releaseLock (snd (startServer w)))"
proof -
  obtain r w' where s: "startServer w = (r, w')" by (cases "startServer w")
  with assms(2) have "r = Inl e" by simp
  with s assms(1) show ?thesis
    by (simp add: ensureServer_def ensureServer_body_def start_fresh_def)
qed

text \<open>
  Claim C5. \<open>start()\<close> probes the fixed port after each of at most 50 sleeps of
  200 ms. At the first probe that succeeds, the \<open>k\<close>-th, it returns the spawned
  child's process identifier, \<open>200 * k\<close> ms after the spawn; when none of the 50
  succeeds it fails, 10 s after the spawn, with the startup-timeout error. Whenever
  \<open>ensureServer\<close> reaches \<open>start()\<close> and it fails, \<open>ensureServer\<close> fails with the same
  error: nothing is retried and no descriptor is persisted in its place.
\<close>

theorem startServer_polls_then_times_out:
  "(1 \<le> k \<and> k \<le> 50
      \<and> isServerResponsive (w\<lparr>clock := clock w + 200 * int k\<rparr>) SERVER_PORT
      \<and> (\<forall>j. 1 \<le> j \<and> j < k \<longrightarrow>
            \<not> isServerResponsive (w\<lparr>clock := clock w + 200 * int j\<rparr>) SERVER_PORT)
      \<longrightarrow> startServer w =
            (Inr (child_pid w),
             w\<lparr>clock := clock w + 200 * int k, procs := (procs w)(child_pid w := Normal)\<rparr>))
   \<and> ((\<forall>j. 1 \<le> j \<and> j \<le> 50 \<longrightarrow>
            \<not> isServerResponsive (w\<lparr>clock := clock w + 200 * int j\<rparr>) SERVER_PORT)
      \<longrightarrow> startServer w =
            (Inl (Error ''Server failed to start within timeout''),
             w\<lparr>clock := clock w + 10000, procs := (procs w)(child_pid w := Normal)\<rparr>))
   \<and> (reuse_phase (lock_retries 5 w0) = (None, w) \<and> fst (startServer w) = Inl e
      \<longrightarrow> ensureServer w0 = (Inl e, releaseLock (snd (startServer w))))"
  using startServer_ready [of k w] startServer_timeout [of w] ensureServer_propagates [of w0 w e]
  by blast

theorem startServer_polls_then_times_out_witness:
  "fst (startServer fresh_world) = Inr 5000
   \<and> clock (snd (startServer fresh_world)) = 1700000000600
   \<and> fst (startServer dead_world) = Inl (Error ''Server failed to start within timeout'')
   \<and> clock (snd (startServer dead_world)) = 1700000010000
   \<and> fst (ensureServer dead_world) = Inl (Error ''Server failed to start within timeout'')
   \<and> state_file (snd (ensureServer dead_world)) = None"
proof -
  have ready: "fst (startServer fresh_world) = Inr 5000
      \<and> clock (snd (startServer fresh_world)) = 1700000000600"
    using startServer_polls_then_times_out [of 3 fresh_world]
    by (auto simp add: fresh_world_def isServerResponsive_def SERVER_PORT_def response_ok_def)
  have timeout: "fst (startServer dead_world) = Inl (Error ''Server failed to start within timeout'')
      \<and> clock (snd (startServer dead_world)) = 1700000010000"
    using startServer_polls_then_times_out [of _ dead_world]
    by (simp add: dead_world_def fresh_world_def isServerResponsive_def)
  have locked: "lock_retries 5 dead_world =
      dead_world\<lparr>lock_file := Some \<lparr>holder = 4242, mtime = 1700000000000\<rparr>\<rparr>"
    by (simp add: lock_retries_free dead_world_def fresh_world_def)
  have "fst (ensureServer dead_world) = Inl (Error ''Server failed to start within timeout'')
      \<and> state_file (snd (ensureServer dead_world)) = None"
    using startServer_polls_then_times_out
      [of _ "lock_retries 5 dead_world" dead_world "Error ''Server failed to start within timeout''"]
    by (simp add: locked reuse_phase_def loadState_def releaseLock_def)
       (simp add: dead_world_def fresh_world_def isServerResponsive_def)
  with ready timeout show ?thesis by simp
qed


subsection \<open>Orchestrator: reuse of a healthy server\<close>

lemma cleanupIdleServer_fresh:
  "clock w - lastAccess st \<le> IDLE_TIMEOUT_MS \<Longrightarrow> cleanupIdleServer st w = w"
  by (simp add: cleanupIdleServer_def)

lemma cleanupIdleServer_idle:
  "clock w - lastAccess st > IDLE_TIMEOUT_MS \<Longrightarrow>
   cleanupIdleServer st w = (killServer (pid st) w)\<lparr>state_file := None\<rparr>"
  by (simp add: cleanupIdleServer_def)

lemma loadState_lock_retries [simp]:
  "loadState (lock_retries n w) = loadState w"
proof -
  obtain c l where "lock_retries n w = w\<lparr>clock := c, lock_file := l\<rparr>"
    using lock_retries_shape by blast
  then show ?thesis by (simp add: loadState_def)
qed

lemma isProcessRunning_lock_retries [simp]:
  "isProcessRunning (lock_retries n w) p = isProcessRunning w p"
proof -
  obtain c l where "lock_retries n w = w\<lparr>clock := c, lock_file := l\<rparr>"
    using lock_retries_shape by blast
  then show ?thesis by (simp add: isProcessRunning_def)
qed

lemma lock_retries_fields [simp]:
  "state_file (lock_retries n w) = state_file w"
  "procs (lock_retries n w) = procs w"
  "child_pid (lock_retries n w) = child_pid w"
  "http_get (lock_retries n w) = http_get w"
proof -
  obtain c l where "lock_retries n w = w\<lparr>clock := c, lock_file := l\<rparr>"
    using lock_retries_shape by blast
  then show "state_file (lock_retries n w) = state_file w"
    "procs (lock_retries n w) = procs w"
    "child_pid (lock_retries n w) = child_pid w"
    "http_get (lock_retries n w) = http_get w"
    by simp_all
qed

lemma ensureServer_reuses:
  assumes "state_file w = Some (Valid st)"
    and "isProcessRunning w (pid st)"
    and "isServerResponsive (lock_retries 5 w) (port st)"
    and "clock (lock_retries 5 w) - lastAccess st \<le> IDLE_TIMEOUT_MS"
  shows "ensureServer w = (Inr st, releaseLock (lock_retries 5 w))"
proof -
  let ?w1 = "lock_retries 5 w"
  have "loadState ?w1 = Some st"
    using assms(1) by (simp add: loadState_def)
  moreover have "cleanupIdleServer st ?w1 = ?w1"
    using assms(4) by (rule cleanupIdleServer_fresh)
  moreover have "isProcessRunning ?w1 (pid st)"
    using assms(2) by simp
  ultimately have "reuse_phase ?w1 = (Some st, ?w1)"
    using assms(3) by (simp add: reuse_phase_def)
  then show ?thesis
    by (simp add: ensureServer_def ensureServer_body_def)
qed

text \<open>
  Claim C3. When the persisted descriptor names a running process, its port answers the
  probe and it is not idle-expired at the moment \<open>ensureServer\<close> examines it (after
  the lock loop), \<open>ensureServer\<close> returns that descriptor as stored and leaves the
  state file and the process table alone. A second call right after returns the same
  descriptor and changes nothing at all; \<open>lastAccess\<close> does not move.
\<close>

theorem ensureServer_healthy_idempotent:
  assumes "state_file w = Some (Valid st)"
    and "isProcessRunning w (pid st)"
    and "isServerResponsive (lock_retries 5 w) (port st)"
    and "clock (lock_retries 5 w) - lastAccess st \<le> IDLE_TIMEOUT_MS"
  shows "fst (ensureServer w) = Inr st
    \<and> state_file (snd (ensureServer w)) = state_file w
    \<and> procs (snd (ensureServer w)) = procs w
    \<and> ensureServer (snd (ensureServer w)) = (Inr st, snd (ensureServer w))"
proof -
  let ?w1 = "lock_retries 5 w"
  let ?w' = "releaseLock ?w1"
  have first: "ensureServer w = (Inr st, ?w')"
    using assms by (rule ensureServer_reuses)
  have free: "lock_file ?w' = None"
    by (simp add: releaseLock_def)
  have again: "lock_retries 5 ?w' = ?w'\<lparr>lock_file := Some \<lparr>holder = self_pid ?w', mtime = clock ?w'\<rparr>\<rparr>"
    using free by (rule lock_retries_free)
  have "ensureServer ?w' = (Inr st, releaseLock (lock_retries 5 ?w'))"
  proof (rule ensureServer_reuses)
    show "state_file ?w' = Some (Valid st)"
      using assms(1) by (simp add: releaseLock_def)
    show "isProcessRunning ?w' (pid st)"
      using assms(2) by (simp add: releaseLock_def)
    show "isServerResponsive (lock_retries 5 ?w') (port st)"
      using assms(3) by (simp add: again) (simp add: releaseLock_def)
    show "clock (lock_retries 5 ?w') - lastAccess st \<le> IDLE_TIMEOUT_MS"
      using assms(4) by (simp add: again) (simp add: releaseLock_def)
  qed
  moreover have "releaseLock (lock_retries 5 ?w') = ?w'"
    by (simp add: again) (simp add: releaseLock_def)
  ultimately have second: "ensureServer ?w' = (Inr st, ?w')" by simp
  show ?thesis
    using second by (simp add: first) (simp add: releaseLock_def)
qed


theorem ensureServer_healthy_idempotent_witness:
  "state_file healthy_world = Some (Valid \<lparr>pid = 4100, port = 18912, lastAccess = 1699999940000\<rparr>)
   \<and> fst (ensureServer healthy_world) = Inr \<lparr>pid = 4100, port = 18912, lastAccess = 1699999940000\<rparr>
   \<and> state_file (snd (ensureServer healthy_world)) =
       Some (Valid \<lparr>pid = 4100, port = 18912, lastAccess = 1699999940000\<rparr>)
   \<and> fst (ensureServer (snd (ensureServer healthy_world))) =
       Inr \<lparr>pid = 4100, port = 18912, lastAccess = 1699999940000\<rparr>"
  using ensureServer_healthy_idempotent
    [of healthy_world "\<lparr>pid = 4100, port = 18912, lastAccess = 1699999940000\<rparr>"]
  by (simp add: healthy_world_def fresh_world_def lock_retries_free isProcessRunning_def
      isServerResponsive_def response_ok_def IDLE_TIMEOUT_MS_def)

subsection \<open>Orchestrator: the idle reap\<close>


lemma reuse_phase_idle:
  assumes "state_file w = Some (Valid st)"
    and "clock w - lastAccess st > IDLE_TIMEOUT_MS"
  shows "reuse_phase w =
     (let w2 = killServer (pid st) w
      in if isProcessRunning w2 (pid st) \<and> isServerResponsive w2 (port st)
         then (Some st, w2\<lparr>state_file := None\<rparr>)
         else (None, (if isProcessRunning w2 (pid st)
                      then killServer (pid st) (w2\<lparr>state_file := None\<rparr>)
                      else w2\<lparr>state_file := None\<rparr>)))"
  using assms by (simp add: reuse_phase_def loadState_def cleanupIdleServer_idle Let_def)

text \<open>
  Claim C10. After the idle-reap branch has signalled the process and deleted the state
  file, \<open>ensureServer\<close> goes on with the descriptor it loaded before the reap. If that
  process still passes the liveness probe and its port still answers after the kill
  attempt, \<open>ensureServer\<close> returns the reaped descriptor and persists nothing: the
  store is empty while a descriptor is returned.
\<close>

theorem ensureServer_returns_reaped_descriptor:
  assumes "state_file w = Some (Valid st)"
    and "clock (lock_retries 5 w) - lastAccess st > IDLE_TIMEOUT_MS"
    and "isProcessRunning (killServer (pid st) (lock_retries 5 w)) (pid st)"
    and "isServerResponsive (killServer (pid st) (lock_retries 5 w)) (port st)"
  shows "fst (ensureServer w) = Inr st
    \<and> state_file (snd (ensureServer w)) = None
    \<and> loadState (snd (ensureServer w)) = None"
proof -
  let ?w1 = "lock_retries 5 w"
  have "reuse_phase ?w1 = (Some st, (killServer (pid st) ?w1)\<lparr>state_file := None\<rparr>)"
    using assms by (simp add: reuse_phase_idle)
  then show ?thesis
    by (simp add: ensureServer_def ensureServer_body_def releaseLock_def loadState_def)
qed

theorem ensureServer_returns_reaped_descriptor_witness:
  "state_file zombie_world = Some (Valid \<lparr>pid = 4100, port = 18912, lastAccess = 1699996399999\<rparr>)
   \<and> clock zombie_world - 1699996399999 > IDLE_TIMEOUT_MS
   \<and> fst (ensureServer zombie_world) = Inr \<lparr>pid = 4100, port = 18912, lastAccess = 1699996399999\<rparr>
   \<and> loadState (snd (ensureServer zombie_world)) = None"
  using ensureServer_returns_reaped_descriptor
    [of zombie_world "\<lparr>pid = 4100, port = 18912, lastAccess = 1699996399999\<rparr>"]
  by (simp add: zombie_world_def healthy_world_def fresh_world_def lock_retries_free
      killServer_cases isProcessRunning_def isServerResponsive_def response_ok_def
      IDLE_TIMEOUT_MS_def)



lemma killServer_http [simp]:
  "http_get (killServer p w) = http_get w"
  by (simp add: killServer_cases split: proc.splits)











subsection \<open>RequestProxy\<close>

lemma healthy_variant_run:
  "ensureServer (healthy_world\<lparr>http_post := f\<rparr>) =
     (Inr \<lparr>pid = 4100, port = 18912, lastAccess = 1699999940000\<rparr>,
      healthy_world\<lparr>http_post := f\<rparr>)"
proof -
  let ?w = "healthy_world\<lparr>http_post := f\<rparr>"
  let ?st = "\<lparr>pid = 4100, port = 18912, lastAccess = 1699999940000\<rparr>"
  have "ensureServer ?w = (Inr ?st, releaseLock (lock_retries 5 ?w))"
    by (rule ensureServer_reuses)
       (simp_all add: healthy_world_def fresh_world_def lock_retries_free isProcessRunning_def
          isServerResponsive_def response_ok_def IDLE_TIMEOUT_MS_def)
  moreover have "releaseLock (lock_retries 5 ?w) = ?w"
    by (simp add: healthy_world_def fresh_world_def lock_retries_free releaseLock_def)
  ultimately show ?thesis by simp
qed

lemma formatCode_after_ensureServer:
  assumes "ensureServer w = (Inr st, w1)"
  shows "formatCode fileName contents w =
     (case http_post w1 (port st) (resolvePath w1 fileName) contents of
        NetworkError \<Rightarrow> (Inl FetchFailed, w1)
      | TimedOut \<Rightarrow> (Inl FetchFailed, w1)
      | Response s txt js \<Rightarrow>
          if \<not> response_ok s
          then (Inl (Error (''Server returned '' @ string_of_nat s @ '': '' @ txt)), w1)
          else (case js of
                  None \<Rightarrow> (Inl JsonSyntaxError, w1)
                | Some result \<Rightarrow>
                    (case formattedFile result of
                       None \<Rightarrow> (Inl (Error (case errorMessage result of
                                             None \<Rightarrow> [] | Some m \<Rightarrow> m)),
                                saveState (st\<lparr>lastAccess := clock w1\<rparr>) w1)
                     | Some f \<Rightarrow>
                         if f = []
                         then (Inl (Error (case errorMessage result of
                                             None \<Rightarrow> [] | Some m \<Rightarrow> m)),
                               saveState (st\<lparr>lastAccess := clock w1\<rparr>) w1)
                         else (Inr f, saveState (st\<lparr>lastAccess := clock w1\<rparr>) w1))))"
  using assms
  by (simp add: formatCode_def truthy_def Let_def split: http_reply.splits option.splits)

text \<open>
  Claim C6. Round trip: for every file name and every input \<open>contents\<close> that reaches
  \<open>formatCode\<close> (its only caller \<open>main\<close> exits on empty input, lines 411-414, so the
  input is not empty), when \<open>ensureServer\<close> yields a descriptor and the backend answers
  the POST with a 2xx status and the body \<open>{formattedFile: contents, status: "Formatted"}\<close>,
  \<open>formatCode\<close> succeeds and returns exactly \<open>contents\<close>.
\<close>

theorem formatCode_round_trip:
  assumes "ensureServer w = (Inr st, w1)"
    and "http_post w1 (port st) (resolvePath w1 fileName) contents =
           Response s txt
             (Some \<lparr>formattedFile = Some contents, errorMessage = None, status = Formatted\<rparr>)"
    and "response_ok s"
    and "contents \<noteq> []"
  shows "fst (formatCode fileName contents w) = Inr contents"
  using assms by (simp add: formatCode_after_ensureServer)

theorem formatCode_round_trip_witness:
  "ensureServer healthy_world =
     (Inr \<lparr>pid = 4100, port = 18912, lastAccess = 1699999940000\<rparr>, healthy_world)
   \<and> http_post healthy_world 18912 (resolvePath healthy_world ''Program.cs'') ''class A { }'' =
       Response 200 []
         (Some \<lparr>formattedFile = Some ''class A { }'', errorMessage = None, status = Formatted\<rparr>)
   \<and> response_ok 200
   \<and> fst (formatCode ''Program.cs'' ''class A { }'' healthy_world) = Inr ''class A { }''"
proof -
  have run: "ensureServer healthy_world =
      (Inr \<lparr>pid = 4100, port = 18912, lastAccess = 1699999940000\<rparr>, healthy_world)"
    using healthy_variant_run [of "http_post healthy_world"] by simp
  have post: "http_post healthy_world 18912 (resolvePath healthy_world ''Program.cs'') ''class A { }'' =
       Response 200 []
         (Some \<lparr>formattedFile = Some ''class A { }'', errorMessage = None, status = Formatted\<rparr>)"
    by (simp add: healthy_world_def fresh_world_def echo_backend_def)
  have ok: "response_ok 200" by (simp add: response_ok_def)
  have "fst (formatCode ''Program.cs'' ''class A { }'' healthy_world) = Inr ''class A { }''"
    using formatCode_round_trip [of healthy_world _ healthy_world "''Program.cs''" "''class A { }''" 200 "[]"]
      run post ok by simp
  with run post ok show ?thesis by simp
qed

text \<open>
  The failures of \<open>formatCode\<close> once \<open>ensureServer\<close> has yielded a descriptor. A
  status outside 2xx gives an error whose message carries the status and the response
  body; a 2xx body without \<open>formattedFile\<close> gives the \<open>errorMessage\<close> the backend
  supplied. The call succeeds exactly when the reply is a 2xx JSON body whose
  \<open>formattedFile\<close> is present and not the empty string.
\<close>

lemma formatCode_failure_cases:
  assumes "ensureServer w = (Inr st, w1)"
    and "http_post w1 (port st) (resolvePath w1 fileName) contents = reply"
  shows "(\<forall>s txt js. reply = Response s txt js \<and> \<not> response_ok s \<longrightarrow>
            fst (formatCode fileName contents w) =
              Inl (Error (''Server returned '' @ string_of_nat s @ '': '' @ txt)))
    \<and> (\<forall>s txt result m. reply = Response s txt (Some result) \<and> response_ok s
            \<and> formattedFile result = None \<and> errorMessage result = Some m \<longrightarrow>
            fst (formatCode fileName contents w) = Inl (Error m))
    \<and> ((\<exists>e. fst (formatCode fileName contents w) = Inl e) \<longleftrightarrow>
          \<not> (\<exists>s txt result f. reply = Response s txt (Some result) \<and> response_ok s
                \<and> formattedFile result = Some f \<and> f \<noteq> []))"
proof -
  note fc = formatCode_after_ensureServer [OF assms(1), of fileName contents, unfolded assms(2)]
  have non2xx: "fst (formatCode fileName contents w) =
      Inl (Error (''Server returned '' @ string_of_nat s @ '': '' @ t))"
    if "reply = Response s t js" "\<not> response_ok s" for s t js
    using that by (simp add: fc)
  have reported: "fst (formatCode fileName contents w) = Inl (Error msg)"
    if "reply = Response s t (Some res)" and "response_ok s"
      and "formattedFile res = None" and "errorMessage res = Some msg" for s t res msg
    using that by (simp add: fc)
  have exactly: "(\<exists>e. fst (formatCode fileName contents w) = Inl e) \<longleftrightarrow>
          \<not> (\<exists>s t result f. reply = Response s t (Some result) \<and> response_ok s
                \<and> formattedFile result = Some f \<and> f \<noteq> [])"
    by (simp add: fc split: http_reply.splits option.splits)
  from non2xx reported exactly show ?thesis by blast
qed

lemma formatCode_failure_samples:
  "fst (formatCode ''Program.cs'' ''class A {'' parse_error_world) = Inl (Error ''parse error'')
   \<and> fst (formatCode ''Program.cs'' ''class A {'' server_error_world) =
       Inl (Error ''Server returned 500: Internal Server Error'')
   \<and> \<not> (\<exists>e. fst (formatCode ''Program.cs'' ''class A {'' healthy_world) = Inl e)"
proof -
  let ?st = "\<lparr>pid = 4100, port = 18912, lastAccess = 1699999940000\<rparr>"
  have run1: "ensureServer parse_error_world = (Inr ?st, parse_error_world)"
    unfolding parse_error_world_def by (rule healthy_variant_run)
  have run2: "ensureServer server_error_world = (Inr ?st, server_error_world)"
    unfolding server_error_world_def by (rule healthy_variant_run)
  have run3: "ensureServer healthy_world = (Inr ?st, healthy_world)"
    using healthy_variant_run [of "http_post healthy_world"] by simp
  have "fst (formatCode ''Program.cs'' ''class A {'' parse_error_world) = Inl (Error ''parse error'')"
    using formatCode_failure_cases [OF run1 refl, of "''Program.cs''" "''class A {''"]
    by (simp add: parse_error_world_def response_ok_def)
  moreover have "fst (formatCode ''Program.cs'' ''class A {'' server_error_world) =
       Inl (Error ''Server returned 500: Internal Server Error'')"
    using formatCode_failure_cases [OF run2 refl, of "''Program.cs''" "''class A {''"]
    by (simp add: server_error_world_def response_ok_def string_of_nat.simps digit_char_def)
  moreover have "\<not> (\<exists>e. fst (formatCode ''Program.cs'' ''class A {'' healthy_world) = Inl e)"
    using formatCode_failure_cases [OF run3 refl, of "''Program.cs''" "''class A {''"]
    by (simp add: healthy_world_def fresh_world_def echo_backend_def response_ok_def)
  ultimately show ?thesis by simp
qed

text \<open>
  Claim C7 says that \<open>formatCode\<close> fails exactly when the status is outside 2xx or the
  2xx body lacks \<open>formattedFile\<close>. The code on blank input, where the backend answers
  200 with \<open>{formattedFile: "", status: "Formatted"}\<close>: the field is present, and
  \<open>formatCode\<close> throws an error with an empty message, since line 230 tests
  \<open>formattedFile\<close> for truthiness.
\<close>

theorem formatCode_rejects_empty_formattedFile:
  "http_post blank_output_world 18912 (resolvePath blank_output_world ''Program.cs'') ''  '' =
     Response 200 [] (Some \<lparr>formattedFile = Some [], errorMessage = None, status = Formatted\<rparr>)
   \<and> fst (formatCode ''Program.cs'' ''  '' blank_output_world) = Inl (Error [])"
proof -
  have run: "ensureServer blank_output_world =
      (Inr \<lparr>pid = 4100, port = 18912, lastAccess = 1699999940000\<rparr>, blank_output_world)"
    unfolding blank_output_world_def by (rule healthy_variant_run)
  have post: "http_post blank_output_world 18912
      (resolvePath blank_output_world ''Program.cs'') ''  '' =
     Response 200 [] (Some \<lparr>formattedFile = Some [], errorMessage = None, status = Formatted\<rparr>)"
    by (simp add: blank_output_world_def)
  have "fst (formatCode ''Program.cs'' ''  '' blank_output_world) = Inl (Error [])"
    by (simp add: formatCode_after_ensureServer [OF run] post response_ok_def)
  with post show ?thesis by simp
qed

text \<open>
  Claim C9. As soon as a 2xx response body has been parsed, and before
  \<open>formattedFile\<close> is looked at, \<open>formatCode\<close> sets \<open>lastAccess\<close> to the current time
  and persists the descriptor. A request that then fails with the backend's
  \<open>errorMessage\<close> has therefore advanced \<open>lastAccess\<close> all the same, and the idle
  check finds the descriptor fresh.
\<close>

theorem formatCode_refreshes_lastAccess_first:
  assumes "ensureServer w = (Inr st, w1)"
    and "http_post w1 (port st) (resolvePath w1 fileName) contents = Response s txt (Some result)"
    and "response_ok s"
  shows "state_file (snd (formatCode fileName contents w)) =
           Some (Valid (st\<lparr>lastAccess := clock w1\<rparr>))
    \<and> clock (snd (formatCode fileName contents w)) = clock w1
    \<and> (formattedFile result = None \<longrightarrow>
         fst (formatCode fileName contents w) =
           Inl (Error (case errorMessage result of None \<Rightarrow> [] | Some m \<Rightarrow> m)))
    \<and> cleanupIdleServer (st\<lparr>lastAccess := clock w1\<rparr>) (snd (formatCode fileName contents w)) =
         snd (formatCode fileName contents w)"
  using assms
  by (simp add: formatCode_after_ensureServer saveState_def cleanupIdleServer_def
      IDLE_TIMEOUT_MS_def split: option.splits)

theorem formatCode_refreshes_lastAccess_first_witness:
  "state_file parse_error_world =
     Some (Valid \<lparr>pid = 4100, port = 18912, lastAccess = 1699999940000\<rparr>)
   \<and> fst (formatCode ''Program.cs'' ''class A {'' parse_error_world) = Inl (Error ''parse error'')
   \<and> state_file (snd (formatCode ''Program.cs'' ''class A {'' parse_error_world)) =
       Some (Valid \<lparr>pid = 4100, port = 18912, lastAccess = 1700000000000\<rparr>)"
proof -
  let ?st = "\<lparr>pid = 4100, port = 18912, lastAccess = 1699999940000\<rparr>"
  let ?r = "\<lparr>formattedFile = None, errorMessage = Some ''parse error'', status = Failed\<rparr>"
  have run: "ensureServer parse_error_world = (Inr ?st, parse_error_world)"
    unfolding parse_error_world_def by (rule healthy_variant_run)
  have post: "http_post parse_error_world (port ?st)
      (resolvePath parse_error_world ''Program.cs'') ''class A {'' = Response 200 [] (Some ?r)"
    by (simp add: parse_error_world_def)
  have ok: "response_ok 200" by (simp add: response_ok_def)
  show ?thesis
    using formatCode_refreshes_lastAccess_first [OF run post ok]
    by (simp add: parse_error_world_def healthy_world_def fresh_world_def)
qed

text \<open>
  By contrast, a response outside 2xx leaves the persisted descriptor as it was, and a
  failure of \<open>ensureServer\<close> is the failure of \<open>formatCode\<close>.
\<close>

lemma formatCode_startup_failure:
  assumes "ensureServer w = (Inl e, w1)"
  shows "formatCode fileName contents w = (Inl e, w1)"
  using assms by (simp add: formatCode_def)


lemma formatCode_non2xx_keeps_state:
  assumes "ensureServer w = (Inr st, w1)"
    and "http_post w1 (port st) (resolvePath w1 fileName) contents = Response s txt js"
    and "\<not> response_ok s"
  shows "snd (formatCode fileName contents w) = w1"
  using assms by (simp add: formatCode_after_ensureServer)


end
